theory Spec2Isabelle
  imports Main "HOL-Library.Multiset"
begin

section \<open>The blogging application of app.js\<close>

text \<open>
  The request handlers of \<^verbatim>\<open>src/app.js\<close> as functions from a request and a state to
  a response and a new state. The state holds the two collections of the document
  store, the upload directory, the session of the one browser that talks to the server
  and that browser's \<^verbatim>\<open>redUrl\<close> cookie. Every call of the document store may reject:
  the state carries the outcomes of the coming calls (\<open>faults\<close>), and every call of a
  collaborator is written to a trace.
\<close>

subsection \<open>Values and documents\<close>

datatype jsval = JUndefined | JBool bool | JStr string

fun truthy :: "jsval \<Rightarrow> bool" where
  "truthy JUndefined = False"
| "truthy (JBool b) = b"
| "truthy (JStr s) = (s \<noteq> [])"

text \<open>
  A user document: its id and the properties it carries. \<^verbatim>\<open>userSchema\<close> (lines 73-76)
  declares \<^verbatim>\<open>email\<close> and \<^verbatim>\<open>password\<close> only; a property that an object does not
  carry reads as \<^verbatim>\<open>undefined\<close>.
\<close>

record user =
  uid :: string
  props :: "(string \<times> jsval) list"

definition getprop :: "user \<Rightarrow> string \<Rightarrow> jsval" where
  "getprop u k = (case map_of (props u) k of None \<Rightarrow> JUndefined | Some v \<Rightarrow> v)"

definition userSchema :: "string list" where
  "userSchema = [''email'', ''password'']"

text \<open>
  \<^verbatim>\<open>new User({...})\<close>: the model constructor keeps the paths of the schema and drops
  every other key of the object it is given (the schema is strict, mongoose's default).
\<close>

definition new_User :: "string \<Rightarrow> (string \<times> jsval) list \<Rightarrow> user" where
  "new_User i obj = \<lparr>uid = i, props = filter (\<lambda>kv. fst kv \<in> set userSchema) obj\<rparr>"

text \<open>\<^verbatim>\<open>req.user.isAdmin\<close>, as the condition of line 360 reads it.\<close>

definition isAdmin :: "user \<Rightarrow> bool" where
  "isAdmin u = truthy (getprop u ''isAdmin'')"

text \<open>\<^verbatim>\<open>postSchema\<close> (lines 79-89); \<open>createdAt\<close> is a date, in milliseconds.\<close>

record post =
  pid :: string
  title :: string
  filename :: string
  body :: string
  authorId :: string
  username :: string
  createdAt :: int

subsection \<open>Collaborators outside the repository\<close>

text \<open>
  The library functions the handlers call are parameters of the model:
  \<^verbatim>\<open>mongoose.Types.ObjectId.isValid\<close> (a string that it refuses is also one that the
  cast of an \<^verbatim>\<open>_id\<close> filter refuses), the cast itself, the \<^verbatim>\<open>isEmail\<close> validator, and
  bcrypt's \<^verbatim>\<open>hash\<close> and \<^verbatim>\<open>compare\<close>. \<open>toObjectId\<close> gives the identifier that a
  well-formed string is cast to, written as the stored documents write theirs (\<open>pid\<close>,
  \<open>uid\<close>): two spellings of one identifier, such as hexadecimal digits in upper and in
  lower case, are cast to the same identifier.
\<close>

record lib =
  isValid :: "string \<Rightarrow> bool"
  toObjectId :: "string \<Rightarrow> string"
  isEmail :: "string \<Rightarrow> bool"
  bcrypt_hash :: "string \<Rightarrow> string"
  bcrypt_compare :: "string \<Rightarrow> string \<Rightarrow> bool"

datatype err = StoreFailure | CastError | TypeError

datatype event =
    FindUserByEmail string
  | FindUserById string
  | SaveUser string
  | FindPosts
  | FindPostById string
  | SavePost string
  | DeletePost string
  | Upload string
  | Unlink string

subsection \<open>Requests, responses, state\<close>

text \<open>
  A request as the handlers read it. \<open>req_user\<close> is what \<^verbatim>\<open>passport.session()\<close> left in
  \<^verbatim>\<open>req.user\<close>; \<open>req_file\<close> is the name multer generated for the uploaded file, if the
  request carries one; \<open>new_id\<close> is the id the driver gives a document created during
  this request and \<open>now\<close> the clock.
\<close>

record req =
  req_user :: "user option"
  req_url :: string
  query_sortby :: "string option"
  params_id :: string
  body_email :: string
  body_password :: string
  body_title :: string
  body_body :: string
  cookies_redUrl :: "string option"
  req_file :: "string option"
  new_id :: string
  now :: int

text \<open>
  \<open>NoResponse\<close>: the handler ends without sending anything (a rejection that nothing
  catches, or a catch that only logs). \<open>ErrorHandler\<close>: the error is passed to
  \<^verbatim>\<open>next\<close>, Express's own error handler answers. \<open>Uncaught\<close>: an exception is
  thrown in a callback outside every \<^verbatim>\<open>try\<close>.
\<close>

datatype response =
    Redirect string
  | Send nat string
  | Render string "post list"
  | RenderAdmin "string list" "string list"
  | NoResponse
  | ErrorHandler err
  | Uncaught

record st =
  users :: "user list"
  posts :: "post list"
  uploads :: "string set"
  faults :: "bool list"
  trace :: "event list"
  sess_user :: "string option"
  flash_error :: "string list"
  flash_success :: "string list"
  jar_redUrl :: "string option"

subsection \<open>The document store and the upload directory\<close>

text \<open>
  The document store may reject a call. \<open>faults\<close> holds the outcomes of the coming
  calls (\<open>True\<close>: the call rejects; past the end of the list every call is answered).
  \<open>answers n s\<close>: none of the next \<open>n\<close> calls rejects. A call is written to the trace
  and takes the next outcome.
\<close>

definition answers :: "nat \<Rightarrow> st \<Rightarrow> bool" where
  "answers n s = (True \<notin> set (take n (faults s)))"

definition store_call :: "event \<Rightarrow> st \<Rightarrow> bool \<times> st" where
  "store_call ev s = (answers 1 s, s\<lparr>faults := drop 1 (faults s), trace := trace s @ [ev]\<rparr>)"

definition User_findOne :: "string \<Rightarrow> st \<Rightarrow> (err + user option) \<times> st" where
  "User_findOne e s =
     (let (ok, s1) = store_call (FindUserByEmail e) s
      in if ok then (Inr (find (\<lambda>u. getprop u ''email'' = JStr e) (users s1)), s1)
         else (Inl StoreFailure, s1))"

definition User_findById :: "string \<Rightarrow> st \<Rightarrow> (err + user option) \<times> st" where
  "User_findById i s =
     (let (ok, s1) = store_call (FindUserById i) s
      in if ok then (Inr (find (\<lambda>u. uid u = i) (users s1)), s1)
         else (Inl StoreFailure, s1))"

definition User_save :: "user \<Rightarrow> st \<Rightarrow> bool \<times> st" where
  "User_save u s =
     (let (ok, s1) = store_call (SaveUser (uid u)) s
      in if ok then (True, s1\<lparr>users := users s1 @ [u]\<rparr>) else (False, s1))"

text \<open>
  A lookup by \<^verbatim>\<open>_id\<close> casts the string first: a string that is no identifier raises
  before the store is called, and a well-formed one is looked up as the identifier it is
  cast to.
\<close>

definition Post_findById :: "lib \<Rightarrow> string \<Rightarrow> st \<Rightarrow> (err + post option) \<times> st" where
  "Post_findById L i s =
     (if \<not> isValid L i then (Inl CastError, s)
      else let (ok, s1) = store_call (FindPostById i) s
           in if ok then (Inr (find (\<lambda>p. pid p = toObjectId L i) (posts s1)), s1)
              else (Inl StoreFailure, s1))"

text \<open>\<^verbatim>\<open>Post.find({}).sort({createdAt: d})\<close>, \<open>d = 1\<close> ascending, \<open>d = -1\<close> descending.\<close>

definition Post_find_sorted :: "bool \<Rightarrow> st \<Rightarrow> (err + post list) \<times> st" where
  "Post_find_sorted asc s =
     (let (ok, s1) = store_call FindPosts s
      in if ok then
           (Inr (if asc then sort_key createdAt (posts s1)
                 else sort_key (\<lambda>p. - createdAt p) (posts s1)), s1)
         else (Inl StoreFailure, s1))"

definition Post_find_author :: "string \<Rightarrow> st \<Rightarrow> (err + post list) \<times> st" where
  "Post_find_author a s =
     (let (ok, s1) = store_call FindPosts s
      in if ok then (Inr (filter (\<lambda>p. authorId p = a) (posts s1)), s1)
         else (Inl StoreFailure, s1))"

text \<open>\<^verbatim>\<open>post.save()\<close>: a new document is inserted, a fetched one is written back.\<close>

definition Post_save :: "post \<Rightarrow> st \<Rightarrow> bool \<times> st" where
  "Post_save p s =
     (let (ok, s1) = store_call (SavePost (pid p)) s
      in if ok then
           (True, s1\<lparr>posts :=
              (if pid p \<in> pid ` set (posts s1)
               then map (\<lambda>q. if pid q = pid p then p else q) (posts s1)
               else posts s1 @ [p])\<rparr>)
         else (False, s1))"

fun delete_first :: "string \<Rightarrow> post list \<Rightarrow> post list" where
  "delete_first i [] = []"
| "delete_first i (p # ps) = (if pid p = i then ps else p # delete_first i ps)"

text \<open>
  \<^verbatim>\<open>Post.deleteOne({_id: postId})\<close>, called with an id that a lookup has accepted: the
  filter is cast as the lookup's is.
\<close>

definition Post_deleteOne :: "lib \<Rightarrow> string \<Rightarrow> st \<Rightarrow> bool \<times> st" where
  "Post_deleteOne L i s =
     (let (ok, s1) = store_call (DeletePost i) s
      in if ok then (True, s1\<lparr>posts := delete_first (toObjectId L i) (posts s1)\<rparr>)
         else (False, s1))"

text \<open>
  \<^verbatim>\<open>upload.single(field)\<close>: multer writes the file of the request, if there is one, under
  its generated name. \<^verbatim>\<open>fs.unlink\<close> removes a file and tells whether it was there.
\<close>

definition upload_single :: "req \<Rightarrow> st \<Rightarrow> st" where
  "upload_single r s =
     (case req_file r of
        None \<Rightarrow> s
      | Some f \<Rightarrow> s\<lparr>uploads := insert f (uploads s), trace := trace s @ [Upload f]\<rparr>)"

definition fs_unlink :: "string \<Rightarrow> st \<Rightarrow> bool \<times> st" where
  "fs_unlink f s = (f \<in> uploads s, s\<lparr>uploads := uploads s - {f}, trace := trace s @ [Unlink f]\<rparr>)"

subsection \<open>Middleware (lines 95-105 and 146-169)\<close>

definition isAuthenticated :: "req \<Rightarrow> bool" where
  "isAuthenticated r = (req_user r \<noteq> None)"

definition storeOriginalUrl :: "req \<Rightarrow> st \<Rightarrow> st" where
  "storeOriginalUrl r s = (if \<not> isAuthenticated r then s\<lparr>jar_redUrl := Some (req_url r)\<rparr> else s)"

text \<open>The messages \<^verbatim>\<open>validationResult(req)\<close> holds after \<^verbatim>\<open>validateEmail\<close>.\<close>

definition validateEmail :: "lib \<Rightarrow> req \<Rightarrow> string list" where
  "validateEmail L r =
     (if isEmail L (body_email r) then [] else [''Please enter a valid email address'']) @
     (if 6 \<le> length (body_password r) then [] else [''Password must be atleast 6 letters long''])"

definition ise :: response where
  "ise = Send 500 ''Internal Server Error''"

text \<open>
  The end of signup and login: \<^verbatim>\<open>if (req.cookies.redUrl) res.redirect(redirectUrl) else
  res.redirect('/dashboard')\<close>; the empty string is falsy.
\<close>

definition redirectBack :: "req \<Rightarrow> response" where
  "redirectBack r =
     (case cookies_redUrl r of
        None \<Rightarrow> Redirect ''/dashboard''
      | Some u \<Rightarrow> if u \<noteq> [] then Redirect u else Redirect ''/dashboard'')"

subsection \<open>The feed (lines 176-203)\<close>

definition home :: "req \<Rightarrow> st \<Rightarrow> response \<times> st" where
  "home r s0 =
     (let s = storeOriginalUrl r s0
      in if query_sortby r = Some ''old'' then
           (case Post_find_sorted True s of
              (Inr ps, s1) \<Rightarrow> (Render ''index'' ps, s1)
            | (Inl e, s1) \<Rightarrow> (ise, s1))
         else
           (case Post_find_sorted False s of
              (Inr ps, s1) \<Rightarrow> (Render ''index'' ps, s1)
            | (Inl e, s1) \<Rightarrow> (ise, s1)))"

subsection \<open>Signup (lines 206-251)\<close>

definition signup_get :: "req \<Rightarrow> st \<Rightarrow> response \<times> st" where
  "signup_get r s =
     (if isAuthenticated r then (Redirect ''/dashboard'', s) else (Render ''signup'' [], s))"

text \<open>
  \<^verbatim>\<open>validateEmail\<close> and \<^verbatim>\<open>isLoggedOut\<close> run before the handler. The handler looks the
  email up first and tests the validation result after that. It has no \<^verbatim>\<open>try\<close>: a
  rejection of \<^verbatim>\<open>findOne\<close> or \<^verbatim>\<open>save\<close> is a rejection of the handler's promise, which
  Express 4 does not wait for, and the request is left without a response.
\<close>

definition signup_post :: "lib \<Rightarrow> req \<Rightarrow> st \<Rightarrow> response \<times> st" where
  "signup_post L r s =
     (if isAuthenticated r then (Redirect ''/dashboard'', s)
      else
        (case User_findOne (body_email r) s of
           (Inl e, s1) \<Rightarrow> (NoResponse, s1)
         | (Inr existingUser, s1) \<Rightarrow>
             (let errors = validateEmail L r
              in if errors \<noteq> [] then
                   (Redirect ''/signup'', s1\<lparr>flash_error := flash_error s1 @ errors\<rparr>)
                 else if existingUser \<noteq> None then (Send 200 ''Email is already in use.'', s1)
                 else
                   (let hash = bcrypt_hash L (body_password r);
                        newUser = new_User (new_id r)
                          [(''email'', JStr (body_email r)),
                           (''password'', JStr hash),
                           (''admin'', JBool False)]
                    in case User_save newUser s1 of
                         (True, s2) \<Rightarrow> (redirectBack r, s2\<lparr>sess_user := Some (uid newUser)\<rparr>)
                       | (False, s2) \<Rightarrow> (NoResponse, s2)))))"

subsection \<open>Login and logout (lines 108-128 and 258-285)\<close>

datatype auth = AuthError err | AuthFail string | AuthOk user

text \<open>The verify callback of the local strategy, with what it passes to \<^verbatim>\<open>done\<close>.\<close>

definition authenticate :: "lib \<Rightarrow> string \<Rightarrow> string \<Rightarrow> st \<Rightarrow> auth \<times> st" where
  "authenticate L email password s =
     (case User_findOne email s of
        (Inl e, s1) \<Rightarrow> (AuthError e, s1)
      | (Inr None, s1) \<Rightarrow> (AuthFail ''Incorrect email or password'', s1)
      | (Inr (Some u), s1) \<Rightarrow>
          (case getprop u ''password'' of
             JStr h \<Rightarrow>
               if \<not> bcrypt_compare L password h
               then (AuthFail ''Incorrect email or password'', s1)
               else (AuthOk u, s1)
           | _ \<Rightarrow> (AuthError TypeError, s1)))"

definition login_get :: "req \<Rightarrow> st \<Rightarrow> response \<times> st" where
  "login_get r s =
     (if isAuthenticated r then (Redirect ''/dashboard'', s) else (Render ''login'' [], s))"

text \<open>
  \<^verbatim>\<open>passport.authenticate('local', {failureRedirect: '/login', failureFlash: true})\<close>
  and the handler behind it. The strategy fails with its own message before it calls the
  verify callback when a credential is empty.
\<close>

definition login_post :: "lib \<Rightarrow> req \<Rightarrow> st \<Rightarrow> response \<times> st" where
  "login_post L r s =
     (if body_email r = [] \<or> body_password r = [] then
        (Redirect ''/login'', s\<lparr>flash_error := flash_error s @ [''Missing credentials'']\<rparr>)
      else
        (case authenticate L (body_email r) (body_password r) s of
           (AuthError e, s1) \<Rightarrow> (ErrorHandler e, s1)
         | (AuthFail msg, s1) \<Rightarrow> (Redirect ''/login'', s1\<lparr>flash_error := flash_error s1 @ [msg]\<rparr>)
         | (AuthOk u, s1) \<Rightarrow> (redirectBack r, s1\<lparr>sess_user := Some (uid u)\<rparr>)))"

definition logout :: "req \<Rightarrow> st \<Rightarrow> response \<times> st" where
  "logout r s = (Redirect ''/'', s\<lparr>sess_user := None\<rparr>)"

subsection \<open>Creating a post (lines 292-320)\<close>

definition post_failed :: "st \<Rightarrow> response \<times> st" where
  "post_failed s = (ise, s\<lparr>flash_error := flash_error s @ [''Internal Server Error'']\<rparr>)"

definition post_create :: "req \<Rightarrow> st \<Rightarrow> response \<times> st" where
  "post_create r s =
     (case req_user r of
        None \<Rightarrow> (Redirect ''/login'', s)
      | Some u \<Rightarrow>
          (let s0 = upload_single r s
           in case getprop u ''email'' of
                JStr e \<Rightarrow>
                  (case req_file r of
                     None \<Rightarrow> post_failed s0
                   | Some f \<Rightarrow>
                       (let p = \<lparr>pid = new_id r, title = body_title r, filename = f,
                                 body = body_body r, authorId = uid u,
                                 username = takeWhile (\<lambda>c. c \<noteq> CHR ''@'') e,
                                 createdAt = now r\<rparr>
                        in case Post_save p s0 of
                             (True, s1) \<Rightarrow>
                               (Redirect ''/dashboard'',
                                s1\<lparr>flash_success := flash_success s1 @ [''Post created successfully.'']\<rparr>)
                           | (False, s1) \<Rightarrow> post_failed s1))
              | _ \<Rightarrow> post_failed s0))"

subsection \<open>Own posts and dashboard (lines 326-344)\<close>

text \<open>The \<^verbatim>\<open>catch\<close> of \<^verbatim>\<open>/myposts\<close> logs the error and sends nothing.\<close>

definition myposts :: "req \<Rightarrow> st \<Rightarrow> response \<times> st" where
  "myposts r s0 =
     (let s = storeOriginalUrl r s0
      in case req_user r of
           None \<Rightarrow> (Redirect ''/login'', s)
         | Some u \<Rightarrow>
             (case Post_find_author (uid u) s of
                (Inr ps, s1) \<Rightarrow> (Render ''dirupload'' ps, s1)
              | (Inl e, s1) \<Rightarrow> (NoResponse, s1)))"

definition dashboard :: "req \<Rightarrow> st \<Rightarrow> response \<times> st" where
  "dashboard r s =
     (case req_user r of
        None \<Rightarrow> (Redirect ''/login'', s)
      | Some u \<Rightarrow>
          (RenderAdmin (flash_success s) (flash_error s),
           s\<lparr>flash_success := [], flash_error := []\<rparr>))"

subsection \<open>Deleting a post (lines 347-379)\<close>

text \<open>
  The callback of \<^verbatim>\<open>fs.unlink\<close> throws when the file is not there; it runs after the
  handler has called \<^verbatim>\<open>deleteOne\<close>, outside the handler's \<^verbatim>\<open>try\<close>: the outcome of
  the request is \<open>Uncaught\<close> then, whatever the store answered.
\<close>

definition delete_get :: "lib \<Rightarrow> req \<Rightarrow> st \<Rightarrow> response \<times> st" where
  "delete_get L r s =
     (case req_user r of
        None \<Rightarrow> (Redirect ''/login'', s)
      | Some u \<Rightarrow>
          (case Post_findById L (params_id r) s of
             (Inl e, s1) \<Rightarrow> (ise, s1)
           | (Inr None, s1) \<Rightarrow> (Send 404 ''Post not found'', s1)
           | (Inr (Some p), s1) \<Rightarrow>
               if authorId p \<noteq> uid u \<and> \<not> isAdmin u then
                 (Send 403 ''You are not authorized to delete this post'', s1)
               else
                 (let (found, s2) = fs_unlink (filename p) s1;
                      (ok, s3) = Post_deleteOne L (params_id r) s2
                  in if \<not> found then (Uncaught, s3)
                     else if ok then (Redirect ''/myposts'', s3)
                     else (ise, s3))))"

subsection \<open>Reading posts (lines 382-420)\<close>

definition post_view :: "lib \<Rightarrow> req \<Rightarrow> st \<Rightarrow> response \<times> st" where
  "post_view L r s =
     (if \<not> isValid L (params_id r) then (Send 400 ''Invalid post ID'', s)
      else
        (case Post_findById L (params_id r) s of
           (Inl e, s1) \<Rightarrow> (ise, s1)
         | (Inr None, s1) \<Rightarrow> (Send 404 ''Post not found'', s1)
         | (Inr (Some p), s1) \<Rightarrow> (Render ''post'' [p], s1)))"

definition posts_user :: "req \<Rightarrow> st \<Rightarrow> response \<times> st" where
  "posts_user r s =
     (case Post_find_author (params_id r) s of
        (Inr ps, s1) \<Rightarrow> (Render ''index'' ps, s1)
      | (Inl e, s1) \<Rightarrow> (ise, s1))"

subsection \<open>Editing a post (lines 423-493)\<close>

definition edit_get :: "lib \<Rightarrow> req \<Rightarrow> st \<Rightarrow> response \<times> st" where
  "edit_get L r s0 =
     (let s = storeOriginalUrl r s0
      in case req_user r of
           None \<Rightarrow> (Redirect ''/login'', s)
         | Some u \<Rightarrow>
             (case Post_findById L (params_id r) s of
                (Inl e, s1) \<Rightarrow> (ise, s1)
              | (Inr None, s1) \<Rightarrow> (Send 404 ''Post not found'', s1)
              | (Inr (Some p), s1) \<Rightarrow>
                  if authorId p \<noteq> uid u then
                    (Send 403 ''You are not authorized to edit this post'', s1)
                  else (Render ''edit'' [p], s1)))"

text \<open>
  The submission route has \<^verbatim>\<open>upload.single('newImage')\<close> before the handler and nothing
  else. With no user in the request, \<^verbatim>\<open>req.user._id\<close> of line 460 raises a TypeError,
  which the \<^verbatim>\<open>catch\<close> of the handler answers.
\<close>

definition edit_post :: "lib \<Rightarrow> req \<Rightarrow> st \<Rightarrow> response \<times> st" where
  "edit_post L r s0 =
     (let s = upload_single r s0
      in case Post_findById L (params_id r) s of
           (Inl e, s1) \<Rightarrow> (ise, s1)
         | (Inr None, s1) \<Rightarrow> (Send 404 ''Post not found'', s1)
         | (Inr (Some p), s1) \<Rightarrow>
             (case req_user r of
                None \<Rightarrow> (ise, s1)
              | Some u \<Rightarrow>
                  if authorId p \<noteq> uid u then
                    (Send 403 ''You are not authorized to edit this post'', s1)
                  else
                    (let oldFilename = filename p;
                         p1 = p\<lparr>title := body_title r, body := body_body r\<rparr>;
                         p2 = (case req_file r of None \<Rightarrow> p1 | Some f \<Rightarrow> p1\<lparr>filename := f\<rparr>)
                     in case Post_save p2 s1 of
                          (False, s2) \<Rightarrow> (ise, s2)
                        | (True, s2) \<Rightarrow>
                            (let s3 = (if req_file r \<noteq> None \<and> oldFilename \<noteq> []
                                       then snd (fs_unlink oldFilename s2) else s2)
                             in (Redirect (''/post/edit/'' @ params_id r), s3)))))"

subsection \<open>The application\<close>

datatype route =
    GetHome | GetSignup | PostSignup | GetLogin | PostLogin | GetLogout | PostPost
  | GetMyposts | GetDashboard | GetDelete | GetPost | GetPostsUser | GetEdit | PostEdit

fun dispatch :: "lib \<Rightarrow> route \<Rightarrow> req \<Rightarrow> st \<Rightarrow> response \<times> st" where
  "dispatch L GetHome r s = home r s"
| "dispatch L GetSignup r s = signup_get r s"
| "dispatch L PostSignup r s = signup_post L r s"
| "dispatch L GetLogin r s = login_get r s"
| "dispatch L PostLogin r s = login_post L r s"
| "dispatch L GetLogout r s = logout r s"
| "dispatch L PostPost r s = post_create r s"
| "dispatch L GetMyposts r s = myposts r s"
| "dispatch L GetDashboard r s = dashboard r s"
| "dispatch L GetDelete r s = delete_get L r s"
| "dispatch L GetPost r s = post_view L r s"
| "dispatch L GetPostsUser r s = posts_user r s"
| "dispatch L GetEdit r s = edit_get L r s"
| "dispatch L PostEdit r s = edit_post L r s"

text \<open>
  \<^verbatim>\<open>passport.deserializeUser\<close> (lines 136-144): the user of the session is looked up
  by id; a session whose user is gone is a session without a user.
\<close>

definition deserializeUser :: "st \<Rightarrow> (err + user option) \<times> st" where
  "deserializeUser s =
     (case sess_user s of
        None \<Rightarrow> (Inr None, s)
      | Some i \<Rightarrow>
          (case User_findById i s of
             (Inl e, s1) \<Rightarrow> (Inl e, s1)
           | (Inr None, s1) \<Rightarrow> (Inr None, s1\<lparr>sess_user := None\<rparr>)
           | (Inr (Some u), s1) \<Rightarrow> (Inr (Some u), s1)))"

text \<open>
  One request of the browser: the session middleware sets \<^verbatim>\<open>req.user\<close>, the cookie
  parser reads the browser's cookie, the middleware of lines 57-60 takes the flashed
  error messages, and the route runs.
\<close>

definition serve :: "lib \<Rightarrow> route \<Rightarrow> req \<Rightarrow> st \<Rightarrow> response \<times> st" where
  "serve L rt r s =
     (case deserializeUser s of
        (Inl e, s1) \<Rightarrow> (ErrorHandler e, s1)
      | (Inr u, s1) \<Rightarrow>
          dispatch L rt (r\<lparr>req_user := u, cookies_redUrl := jar_redUrl s1\<rparr>)
            (s1\<lparr>flash_error := []\<rparr>))"

text \<open>A browser's requests, one after the other.\<close>

fun run :: "lib \<Rightarrow> (route \<times> req) list \<Rightarrow> st \<Rightarrow> st" where
  "run L [] s = s"
| "run L (x # xs) s = run L xs (snd (serve L (fst x) (snd x) s))"

subsection \<open>A small instance\<close>

text \<open>
  Concrete collaborators and a concrete state, on which the theorems below are
  evaluated: identifiers are 24 hexadecimal digits in either case, written in lower case
  by the documents, the stand-in for bcrypt prefixes the password, and the store holds
  two users and one post of the first.
\<close>

definition hex_lower :: "char \<Rightarrow> char" where
  "hex_lower c =
     (if c = CHR ''A'' then CHR ''a'' else if c = CHR ''B'' then CHR ''b''
      else if c = CHR ''C'' then CHR ''c'' else if c = CHR ''D'' then CHR ''d''
      else if c = CHR ''E'' then CHR ''e'' else if c = CHR ''F'' then CHR ''f'' else c)"

definition demo_lib :: lib where
  "demo_lib =
     \<lparr>isValid = (\<lambda>i. length i = 24 \<and> list_all (\<lambda>c. c \<in> set ''0123456789abcdefABCDEF'') i),
      toObjectId = map hex_lower,
      isEmail = (\<lambda>e. CHR ''@'' \<in> set e),
      bcrypt_hash = (\<lambda>p. ''$2b$'' @ p),
      bcrypt_compare = (\<lambda>p h. h = ''$2b$'' @ p)\<rparr>"

definition alice :: user where
  "alice = \<lparr>uid = ''0000000000000000000000a1'',
            props = [(''email'', JStr ''alice@example.org''), (''password'', JStr ''$2b$wonderland'')]\<rparr>"

definition bob :: user where
  "bob = \<lparr>uid = ''0000000000000000000000b2'',
          props = [(''email'', JStr ''bob@example.org''), (''password'', JStr ''$2b$builder1'')]\<rparr>"

definition demo_post :: post where
  "demo_post =
     \<lparr>pid = ''0000000000000000000000c3'', title = ''Hello'', filename = ''old.png'',
      body = ''First post'', authorId = ''0000000000000000000000a1'', username = ''alice'',
      createdAt = 1000\<rparr>"

definition demo_state :: st where
  "demo_state =
     \<lparr>users = [alice, bob], posts = [demo_post], uploads = {''old.png''}, faults = [],
      trace = [], sess_user = None, flash_error = [], flash_success = [],
      jar_redUrl = None\<rparr>"

definition demo_req :: req where
  "demo_req =
     \<lparr>req_user = None, req_url = ''/'', query_sortby = None,
      params_id = ''0000000000000000000000c3'', body_email = ''alice@example.org'',
      body_password = ''wonderland'', body_title = ''Hello again'', body_body = ''Edited'',
      cookies_redUrl = None, req_file = None, new_id = ''0000000000000000000000d4'',
      now = 2000\<rparr>"

text \<open>A feed of three posts, stored in an order that is not the order of their dates.\<close>

definition feed_post :: "string \<Rightarrow> int \<Rightarrow> post" where
  "feed_post i d =
     \<lparr>pid = i, title = ''t'', filename = ''f.png'', body = ''b'',
      authorId = ''0000000000000000000000a1'', username = ''alice'', createdAt = d\<rparr>"

definition feed_state :: st where
  "feed_state =
     demo_state\<lparr>posts := [feed_post ''p3'' 3000, feed_post ''p1'' 1000, feed_post ''p2'' 2000]\<rparr>"

subsection \<open>Data invariants\<close>

text \<open>
  The email of a user is unique (the data model of the specification); signup keeps it
  so by its lookup before the save.
\<close>

definition emails_unique :: "st \<Rightarrow> bool" where
  "emails_unique s = distinct (map (\<lambda>u. getprop u ''email'') (users s))"

section \<open>Properties\<close>

subsection \<open>Calls of the store\<close>

lemma answers_first: "answers (Suc n) s \<Longrightarrow> answers (Suc 0) s"
  by (cases "faults s") (auto simp: answers_def)

lemma answers_rest:
  "answers (Suc n) s \<Longrightarrow> answers n (s\<lparr>faults := drop (Suc 0) (faults s), trace := tr\<rparr>)"
  by (cases "faults s") (auto simp: answers_def)

lemma store_call_answered:
  "answers (Suc 0) s \<Longrightarrow>
     store_call ev s = (True, s\<lparr>faults := drop (Suc 0) (faults s), trace := trace s @ [ev]\<rparr>)"
  by (simp add: store_call_def)

lemma store_call_rejected:
  "\<not> answers (Suc 0) s \<Longrightarrow>
     store_call ev s = (False, s\<lparr>faults := drop (Suc 0) (faults s), trace := trace s @ [ev]\<rparr>)"
  by (simp add: store_call_def)

lemma Post_findById_answered:
  "isValid L i \<Longrightarrow> answers (Suc 0) s \<Longrightarrow>
     Post_findById L i s =
       (Inr (find (\<lambda>p. pid p = toObjectId L i) (posts s)),
        s\<lparr>faults := drop (Suc 0) (faults s), trace := trace s @ [FindPostById i]\<rparr>)"
  by (simp add: Post_findById_def store_call_answered)

subsection \<open>The submission route of the edit form\<close>

text \<open>
  C1. The claim: a POST to \<^verbatim>\<open>/post/edit/:postId\<close> without a session is turned away by the
  authentication gate, redirected to the login page, before the post is read. The code:
  the route of line 448 has no \<^verbatim>\<open>isLoggedin\<close>, unlike the GET route of line 423. For a
  browser without a session and an existing post, multer stores the uploaded file, the
  post is looked up, and the answer is 500, where the GET route redirects to
  \<^verbatim>\<open>/login\<close>.
\<close>

theorem edit_post_unauthenticated_reaches_handler:
  "serve demo_lib PostEdit (demo_req\<lparr>req_file := Some ''new.png''\<rparr>) demo_state
     = (Send 500 ''Internal Server Error'',
        demo_state\<lparr>uploads := {''new.png'', ''old.png''},
                   trace := [Upload ''new.png'', FindPostById ''0000000000000000000000c3'']\<rparr>) \<and>
   fst (serve demo_lib GetEdit demo_req demo_state) = Redirect ''/login''"
  by (simp add: serve_def deserializeUser_def edit_post_def edit_get_def upload_single_def
      storeOriginalUrl_def isAuthenticated_def Post_findById_def store_call_def answers_def
      demo_lib_def hex_lower_def demo_req_def demo_state_def demo_post_def ise_def)

subsection \<open>Reading one post\<close>

text \<open>
  C7. A GET of \<^verbatim>\<open>/posts/:id\<close> with an id that is no well-formed identifier is answered
  400, and the state is returned as it was: no call of the store is made (nothing is
  added to the trace, no outcome of the store is taken), whatever the store would have
  answered. A well-formed id, when the store answers the lookup and no post has the
  identifier that the id is cast to, is answered 404 after that one lookup.
\<close>

theorem post_view_malformed_id:
  "(\<not> isValid L (params_id r) \<longrightarrow> post_view L r s = (Send 400 ''Invalid post ID'', s)) \<and>
   (isValid L (params_id r) \<and> answers 1 s \<and>
    find (\<lambda>p. pid p = toObjectId L (params_id r)) (posts s) = None \<longrightarrow>
      post_view L r s =
        (Send 404 ''Post not found'',
         s\<lparr>faults := drop 1 (faults s), trace := trace s @ [FindPostById (params_id r)]\<rparr>))"
  by (simp add: post_view_def Post_findById_answered)

theorem post_view_malformed_id_witness:
  "post_view demo_lib (demo_req\<lparr>params_id := ''42''\<rparr>) (demo_state\<lparr>faults := [True]\<rparr>)
     = (Send 400 ''Invalid post ID'', demo_state\<lparr>faults := [True]\<rparr>) \<and>
   post_view demo_lib (demo_req\<lparr>params_id := ''0000000000000000000000FF''\<rparr>) demo_state
     = (Send 404 ''Post not found'',
        demo_state\<lparr>trace := [FindPostById ''0000000000000000000000FF'']\<rparr>)"
  using post_view_malformed_id [of demo_lib "demo_req\<lparr>params_id := ''42''\<rparr>" "demo_state\<lparr>faults := [True]\<rparr>"]
    post_view_malformed_id [of demo_lib "demo_req\<lparr>params_id := ''0000000000000000000000FF''\<rparr>" demo_state]
  by (simp add: demo_lib_def hex_lower_def demo_req_def demo_state_def demo_post_def answers_def hex_lower_def)

text \<open>
  An id is looked up as the identifier it is cast to: the upper-case spelling of the id
  of the stored post finds that post.
\<close>

lemma post_view_upper_case_id:
  "post_view demo_lib (demo_req\<lparr>params_id := ''0000000000000000000000C3''\<rparr>) demo_state
     = (Render ''post'' [demo_post],
        demo_state\<lparr>trace := [FindPostById ''0000000000000000000000C3'']\<rparr>)"
  by (simp add: post_view_def Post_findById_def store_call_def answers_def
      demo_lib_def hex_lower_def demo_req_def demo_state_def demo_post_def hex_lower_def)

subsection \<open>Failures of the store\<close>

text \<open>
  C9. The claim: a failure of the store during a handler's lookup is answered with a
  server error, in particular on \<^verbatim>\<open>/myposts\<close>. The code: the \<^verbatim>\<open>catch\<close> of
  \<^verbatim>\<open>/myposts\<close> (lines 333-335) logs the error and sends nothing, so the request of a
  logged-in user gets no response when the lookup rejects; the sibling route
  \<^verbatim>\<open>/posts/user/:id\<close>, with the same lookup, answers 500.
\<close>

theorem myposts_lookup_failure_no_response:
  "myposts (demo_req\<lparr>req_user := Some alice, req_url := ''/myposts''\<rparr>) (demo_state\<lparr>faults := [True]\<rparr>)
     = (NoResponse, demo_state\<lparr>trace := [FindPosts]\<rparr>) \<and>
   posts_user (demo_req\<lparr>params_id := uid alice\<rparr>) (demo_state\<lparr>faults := [True]\<rparr>)
     = (Send 500 ''Internal Server Error'', demo_state\<lparr>trace := [FindPosts]\<rparr>)"
  by (simp add: myposts_def posts_user_def storeOriginalUrl_def isAuthenticated_def Post_find_author_def
      store_call_def answers_def demo_req_def demo_state_def ise_def)

subsection \<open>The order of the feed\<close>

lemma sorted_desc:
  "sorted (map (\<lambda>p. - createdAt p) ps) \<Longrightarrow> sorted_wrt (\<lambda>a b. createdAt b \<le> createdAt a) ps"
  by (simp add: sorted_map)

lemma Post_find_sorted_answered:
  "answers (Suc 0) s \<Longrightarrow>
     Post_find_sorted asc s =
       (Inr (if asc then sort_key createdAt (posts s) else sort_key (\<lambda>p. - createdAt p) (posts s)),
        s\<lparr>faults := drop (Suc 0) (faults s), trace := trace s @ [FindPosts]\<rparr>)"
  by (simp add: Post_find_sorted_def store_call_answered)

lemma answers_storeOriginalUrl [simp]: "answers n (storeOriginalUrl r s) = answers n s"
  by (simp add: storeOriginalUrl_def answers_def)

lemma posts_storeOriginalUrl [simp]: "posts (storeOriginalUrl r s) = posts s"
  by (simp add: storeOriginalUrl_def)

text \<open>
  C6. When the store answers the lookup, GET \<^verbatim>\<open>/\<close> renders the feed with all the stored
  posts (the same posts, each as often as it is stored): oldest first when \<^verbatim>\<open>sortby\<close> is
  \<^verbatim>\<open>old\<close>, newest first for every other value and when the parameter is absent.
\<close>

theorem home_feed_order:
  assumes "answers 1 s"
  shows "\<exists>ps. fst (home r s) = Render ''index'' ps \<and> mset ps = mset (posts s) \<and>
     (if query_sortby r = Some ''old''
      then sorted_wrt (\<lambda>a b. createdAt a \<le> createdAt b) ps
      else sorted_wrt (\<lambda>a b. createdAt b \<le> createdAt a) ps)"
proof (cases "query_sortby r = Some ''old''")
  case True
  have "sorted (map createdAt (sort_key createdAt (posts s)))"
    by (rule sorted_sort_key)
  then have "sorted_wrt (\<lambda>a b. createdAt a \<le> createdAt b) (sort_key createdAt (posts s))"
    by (simp add: sorted_map)
  with True assms show ?thesis
    by (simp add: home_def Post_find_sorted_answered)
next
  case False
  have "sorted (map (\<lambda>p. - createdAt p) (sort_key (\<lambda>p. - createdAt p) (posts s)))"
    by (rule sorted_sort_key)
  then have "sorted_wrt (\<lambda>a b. createdAt b \<le> createdAt a) (sort_key (\<lambda>p. - createdAt p) (posts s))"
    by (rule sorted_desc)
  with False assms show ?thesis
    by (simp add: home_def Post_find_sorted_answered)
qed

theorem home_feed_order_witness:
  "fst (home (demo_req\<lparr>query_sortby := Some ''old''\<rparr>) feed_state)
     = Render ''index'' [feed_post ''p1'' 1000, feed_post ''p2'' 2000, feed_post ''p3'' 3000] \<and>
   fst (home (demo_req\<lparr>query_sortby := Some ''new''\<rparr>) feed_state)
     = Render ''index'' [feed_post ''p3'' 3000, feed_post ''p2'' 2000, feed_post ''p1'' 1000] \<and>
   fst (home demo_req feed_state)
     = Render ''index'' [feed_post ''p3'' 3000, feed_post ''p2'' 2000, feed_post ''p1'' 1000] \<and>
   (\<exists>ps. fst (home demo_req feed_state) = Render ''index'' ps \<and> mset ps = mset (posts feed_state) \<and>
      sorted_wrt (\<lambda>a b. createdAt b \<le> createdAt a) ps)"
proof -
  have a: "answers 1 feed_state"
    by (simp add: answers_def feed_state_def demo_state_def)
  have 1: "fst (home (demo_req\<lparr>query_sortby := Some ''old''\<rparr>) feed_state)
     = Render ''index'' [feed_post ''p1'' 1000, feed_post ''p2'' 2000, feed_post ''p3'' 3000]"
    by (simp add: home_def Post_find_sorted_def store_call_def answers_def storeOriginalUrl_def
        feed_state_def demo_state_def demo_req_def feed_post_def)
  have 2: "fst (home (demo_req\<lparr>query_sortby := Some ''new''\<rparr>) feed_state)
     = Render ''index'' [feed_post ''p3'' 3000, feed_post ''p2'' 2000, feed_post ''p1'' 1000]"
    by (simp add: home_def Post_find_sorted_def store_call_def answers_def storeOriginalUrl_def
        feed_state_def demo_state_def demo_req_def feed_post_def)
  have 3: "fst (home demo_req feed_state)
     = Render ''index'' [feed_post ''p3'' 3000, feed_post ''p2'' 2000, feed_post ''p1'' 1000]"
    by (simp add: home_def Post_find_sorted_def store_call_def answers_def storeOriginalUrl_def
        feed_state_def demo_state_def demo_req_def feed_post_def)
  have q: "query_sortby demo_req \<noteq> Some ''old''"
    by (simp add: demo_req_def)
  from home_feed_order [OF a, of demo_req] q 1 2 3 show ?thesis
    by simp
qed

subsection \<open>Authentication\<close>

lemma find_none_iff: "(find P xs = None) = (\<forall>x\<in>set xs. \<not> P x)"
  by (induction xs) auto

lemma find_unique:
  "distinct (map f xs) \<Longrightarrow> x \<in> set xs \<Longrightarrow> f x = k \<Longrightarrow> find (\<lambda>y. f y = k) xs = Some x"
  by (induction xs) (auto simp: image_iff)

lemma User_findOne_answered:
  "answers (Suc 0) s \<Longrightarrow>
     User_findOne e s =
       (Inr (find (\<lambda>u. getprop u ''email'' = JStr e) (users s)),
        s\<lparr>faults := drop (Suc 0) (faults s), trace := trace s @ [FindUserByEmail e]\<rparr>)"
  by (simp add: User_findOne_def store_call_answered)

lemma authenticate_unknown:
  assumes "answers (Suc 0) s" "\<forall>u\<in>set (users s). getprop u ''email'' \<noteq> JStr e"
  shows "authenticate L e p s =
     (AuthFail ''Incorrect email or password'',
      s\<lparr>faults := drop (Suc 0) (faults s), trace := trace s @ [FindUserByEmail e]\<rparr>)"
proof -
  have "find (\<lambda>u. getprop u ''email'' = JStr e) (users s) = None"
    using assms(2) by (simp add: find_none_iff)
  with assms(1) show ?thesis
    by (simp add: authenticate_def User_findOne_answered)
qed

lemma authenticate_known:
  assumes "answers (Suc 0) s" "emails_unique s" "u \<in> set (users s)"
    "getprop u ''email'' = JStr e" "getprop u ''password'' = JStr h"
  shows "authenticate L e p s =
     (if bcrypt_compare L p h then AuthOk u else AuthFail ''Incorrect email or password'',
      s\<lparr>faults := drop (Suc 0) (faults s), trace := trace s @ [FindUserByEmail e]\<rparr>)"
proof -
  have "find (\<lambda>u. getprop u ''email'' = JStr e) (users s) = Some u"
    using assms(2-4) unfolding emails_unique_def by (rule find_unique)
  with assms(1,5) show ?thesis
    by (simp add: authenticate_def User_findOne_answered)
qed

text \<open>
  C3. When the store answers the lookup, the verify callback of the login strategy
  fails with the one message \<^verbatim>\<open>Incorrect email or password\<close>, and leaves the same
  state, both when no user has the email and when the user with the email has another
  password; when the password matches the hash of the stored user with the email, it
  succeeds with that user. The email of a user is unique in the store.
\<close>

theorem authenticate_failure_uniform:
  assumes "answers 1 s"
  shows
   "((\<forall>u\<in>set (users s). getprop u ''email'' \<noteq> JStr e) \<longrightarrow>
       authenticate L e p s =
         (AuthFail ''Incorrect email or password'',
          s\<lparr>faults := drop 1 (faults s), trace := trace s @ [FindUserByEmail e]\<rparr>)) \<and>
    (\<forall>u h. emails_unique s \<and> u \<in> set (users s) \<and> getprop u ''email'' = JStr e \<and>
         getprop u ''password'' = JStr h \<and> \<not> bcrypt_compare L p h \<longrightarrow>
       authenticate L e p s =
         (AuthFail ''Incorrect email or password'',
          s\<lparr>faults := drop 1 (faults s), trace := trace s @ [FindUserByEmail e]\<rparr>)) \<and>
    (\<forall>u h. emails_unique s \<and> u \<in> set (users s) \<and> getprop u ''email'' = JStr e \<and>
         getprop u ''password'' = JStr h \<and> bcrypt_compare L p h \<longrightarrow>
       fst (authenticate L e p s) = AuthOk u)"
proof -
  from assms have a: "answers (Suc 0) s" by simp
  show ?thesis
  proof (intro conjI allI impI, goal_cases)
    case 1
    then show ?case using authenticate_unknown [OF a, of e L p] by simp
  next
    case (2 u h)
    then show ?case using authenticate_known [OF a, of u e h L p] by simp
  next
    case (3 u h)
    then show ?case using authenticate_known [OF a, of u e h L p] by simp
  qed
qed

theorem authenticate_failure_uniform_witness:
  "fst (authenticate demo_lib ''carol@example.org'' ''wonderland'' demo_state)
     = AuthFail ''Incorrect email or password'' \<and>
   fst (authenticate demo_lib ''alice@example.org'' ''guess'' demo_state)
     = AuthFail ''Incorrect email or password'' \<and>
   authenticate demo_lib ''carol@example.org'' ''guess'' demo_state
     = (AuthFail ''Incorrect email or password'', demo_state\<lparr>trace := [FindUserByEmail ''carol@example.org'']\<rparr>) \<and>
   fst (authenticate demo_lib ''alice@example.org'' ''wonderland'' demo_state) = AuthOk alice"
proof -
  have a: "answers 1 demo_state"
    by (simp add: answers_def demo_state_def)
  have u: "emails_unique demo_state"
    by (simp add: emails_unique_def demo_state_def alice_def bob_def getprop_def)
  have f: "faults demo_state = []" "trace demo_state = []"
    by (simp_all add: demo_state_def)
  have al: "alice \<in> set (users demo_state)" "getprop alice ''email'' = JStr ''alice@example.org''"
    "getprop alice ''password'' = JStr ''$2b$wonderland''"
    by (simp_all add: demo_state_def alice_def getprop_def)
  have no: "\<forall>u\<in>set (users demo_state). getprop u ''email'' \<noteq> JStr ''carol@example.org''"
    by (simp add: demo_state_def alice_def bob_def getprop_def)
  have c: "\<not> bcrypt_compare demo_lib ''guess'' ''$2b$wonderland''"
    "bcrypt_compare demo_lib ''wonderland'' ''$2b$wonderland''"
    by (simp_all add: demo_lib_def hex_lower_def)
  note T = authenticate_failure_uniform [OF a]
  have 1: "authenticate demo_lib ''carol@example.org'' ''wonderland'' demo_state
     = (AuthFail ''Incorrect email or password'', demo_state\<lparr>trace := [FindUserByEmail ''carol@example.org'']\<rparr>)"
    using T [of "''carol@example.org''" demo_lib "''wonderland''", THEN conjunct1] no
    by (simp add: demo_state_def)
  have 2: "authenticate demo_lib ''carol@example.org'' ''guess'' demo_state
     = (AuthFail ''Incorrect email or password'', demo_state\<lparr>trace := [FindUserByEmail ''carol@example.org'']\<rparr>)"
    using T [of "''carol@example.org''" demo_lib "''guess''", THEN conjunct1] no
    by (simp add: demo_state_def)
  have 3: "fst (authenticate demo_lib ''alice@example.org'' ''guess'' demo_state)
     = AuthFail ''Incorrect email or password''"
    using T [of "''alice@example.org''" demo_lib "''guess''", THEN conjunct2, THEN conjunct1,
        rule_format, of alice "''$2b$wonderland''"] u al c
    by simp
  have 4: "fst (authenticate demo_lib ''alice@example.org'' ''wonderland'' demo_state) = AuthOk alice"
    using T [of "''alice@example.org''" demo_lib "''wonderland''", THEN conjunct2, THEN conjunct2,
        rule_format, of alice "''$2b$wonderland''"] u al c
    by simp
  from 1 2 3 4 show ?thesis
    by simp
qed

subsection \<open>Signup with a registered email\<close>

lemma users_store_call [simp]: "users (snd (store_call ev s)) = users s"
  by (simp add: store_call_def)

lemma signup_post_users:
  "users (snd (signup_post L r s)) = users s \<or>
   (find (\<lambda>u. getprop u ''email'' = JStr (body_email r)) (users s) = None \<and>
    users (snd (signup_post L r s)) = users s @
      [new_User (new_id r)
         [(''email'', JStr (body_email r)),
          (''password'', JStr (bcrypt_hash L (body_password r))),
          (''admin'', JBool False)]])"
  by (simp add: signup_post_def User_findOne_def User_save_def store_call_def Let_def)

text \<open>
  C4. The claim: a signup with the email of a stored user is answered with the plain
  failure message. The code checks the validation result first (lines 216-221): with a
  stored email and a password shorter than six characters the answer is the validation
  redirect to \<^verbatim>\<open>/signup\<close>, with the validation message flashed, not the plain message.
  As amended: a POST of \<^verbatim>\<open>/signup\<close> with the email of a stored user leaves the collection of
  users as it was, whatever else holds; from a logged-out browser, the store answering
  the lookup, the answer is the plain message \<^verbatim>\<open>Email is already in use.\<close> when the
  input passes validation, and when it does not, the validation redirect to
  \<^verbatim>\<open>/signup\<close> with the validation messages added to the flashed errors; in both cases
  nothing else changes but the record of the one lookup.
\<close>

theorem signup_existing_email:
  assumes "\<exists>u\<in>set (users s). getprop u ''email'' = JStr (body_email r)"
  shows "users (snd (signup_post L r s)) = users s \<and>
    (\<not> isAuthenticated r \<and> answers 1 s \<and> validateEmail L r = [] \<longrightarrow>
       signup_post L r s =
         (Send 200 ''Email is already in use.'',
          s\<lparr>faults := drop 1 (faults s),
            trace := trace s @ [FindUserByEmail (body_email r)]\<rparr>)) \<and>
    (\<not> isAuthenticated r \<and> answers 1 s \<and> validateEmail L r \<noteq> [] \<longrightarrow>
       signup_post L r s =
         (Redirect ''/signup'',
          s\<lparr>faults := drop 1 (faults s),
            trace := trace s @ [FindUserByEmail (body_email r)],
            flash_error := flash_error s @ validateEmail L r\<rparr>))"
proof -
  from assms have f: "find (\<lambda>u. getprop u ''email'' = JStr (body_email r)) (users s) \<noteq> None"
    by (simp add: find_none_iff)
  with signup_post_users [of L r s] have "users (snd (signup_post L r s)) = users s"
    by blast
  moreover from f have "\<not> isAuthenticated r \<and> answers 1 s \<and> validateEmail L r = [] \<longrightarrow>
       signup_post L r s =
         (Send 200 ''Email is already in use.'',
          s\<lparr>faults := drop 1 (faults s),
            trace := trace s @ [FindUserByEmail (body_email r)]\<rparr>)"
    by (simp add: signup_post_def User_findOne_answered)
  moreover from f have "\<not> isAuthenticated r \<and> answers 1 s \<and> validateEmail L r \<noteq> [] \<longrightarrow>
       signup_post L r s =
         (Redirect ''/signup'',
          s\<lparr>faults := drop 1 (faults s),
            trace := trace s @ [FindUserByEmail (body_email r)],
            flash_error := flash_error s @ validateEmail L r\<rparr>)"
    by (simp add: signup_post_def User_findOne_answered)
  ultimately show ?thesis by blast
qed

theorem signup_existing_email_counterexample:
  "alice \<in> set (users demo_state) \<and>
   getprop alice ''email'' = JStr (body_email (demo_req\<lparr>body_password := ''abc''\<rparr>)) \<and>
   signup_post demo_lib (demo_req\<lparr>body_password := ''abc''\<rparr>) demo_state
     = (Redirect ''/signup'',
        demo_state\<lparr>trace := [FindUserByEmail ''alice@example.org''],
                   flash_error := [''Password must be atleast 6 letters long'']\<rparr>)"
  by (simp add: signup_post_def User_findOne_def store_call_def answers_def validateEmail_def
      isAuthenticated_def demo_lib_def hex_lower_def demo_req_def demo_state_def alice_def bob_def getprop_def)

theorem signup_existing_email_witness:
  "users (snd (signup_post demo_lib demo_req demo_state)) = users demo_state \<and>
   signup_post demo_lib demo_req demo_state
     = (Send 200 ''Email is already in use.'',
        demo_state\<lparr>trace := [FindUserByEmail ''alice@example.org'']\<rparr>) \<and>
   signup_post demo_lib (demo_req\<lparr>body_email := ''bob@example.org'', body_password := ''abc''\<rparr>)
       (demo_state\<lparr>flash_error := [''earlier'']\<rparr>)
     = (Redirect ''/signup'',
        demo_state\<lparr>trace := [FindUserByEmail ''bob@example.org''],
                   flash_error := [''earlier'', ''Password must be atleast 6 letters long'']\<rparr>)"
proof -
  let ?r = "demo_req\<lparr>body_email := ''bob@example.org'', body_password := ''abc''\<rparr>"
  let ?t = "demo_state\<lparr>flash_error := [''earlier'']\<rparr>"
  have e: "\<exists>u\<in>set (users demo_state). getprop u ''email'' = JStr (body_email demo_req)"
    "\<exists>u\<in>set (users ?t). getprop u ''email'' = JStr (body_email ?r)"
    by (simp_all add: demo_state_def demo_req_def alice_def bob_def getprop_def)
  have h: "\<not> isAuthenticated demo_req" "\<not> isAuthenticated ?r"
    "answers 1 demo_state" "answers 1 ?t" "validateEmail demo_lib demo_req = []"
    "validateEmail demo_lib ?r = [''Password must be atleast 6 letters long'']"
    by (simp_all add: isAuthenticated_def answers_def validateEmail_def demo_req_def demo_state_def demo_lib_def hex_lower_def)
  have d: "faults demo_state = []" "trace demo_state = []" "body_email demo_req = ''alice@example.org''"
    "body_email ?r = ''bob@example.org''"
    by (simp_all add: demo_state_def demo_req_def)
  note A = signup_existing_email [OF e(1), of demo_lib]
  note B = signup_existing_email [OF e(2), of demo_lib]
  from A have 1: "users (snd (signup_post demo_lib demo_req demo_state)) = users demo_state"
    by blast
  from A h have "signup_post demo_lib demo_req demo_state =
         (Send 200 ''Email is already in use.'',
          demo_state\<lparr>faults := drop 1 (faults demo_state),
            trace := trace demo_state @ [FindUserByEmail (body_email demo_req)]\<rparr>)"
    by blast
  then have 2: "signup_post demo_lib demo_req demo_state
     = (Send 200 ''Email is already in use.'',
        demo_state\<lparr>trace := [FindUserByEmail ''alice@example.org'']\<rparr>)"
    by (simp add: d demo_state_def)
  from B h have "signup_post demo_lib ?r ?t =
         (Redirect ''/signup'',
          ?t\<lparr>faults := drop 1 (faults ?t),
            trace := trace ?t @ [FindUserByEmail (body_email ?r)],
            flash_error := flash_error ?t @ validateEmail demo_lib ?r\<rparr>)"
    by simp
  then have 3: "signup_post demo_lib ?r ?t
     = (Redirect ''/signup'',
        demo_state\<lparr>trace := [FindUserByEmail ''bob@example.org''],
                   flash_error := [''earlier'', ''Password must be atleast 6 letters long'']\<rparr>)"
    by (simp add: h(6) d demo_state_def)
  from 1 2 3 show ?thesis by blast
qed

subsection \<open>Deleting a post without the right to\<close>

lemma isAdmin_new_User: "\<not> isAdmin (new_User i [(''email'', a), (''password'', b), (''admin'', c)])"
  by (simp add: isAdmin_def getprop_def new_User_def userSchema_def)

lemma delete_get_forbidden:
  assumes "req_user r = Some u" "isValid L (params_id r)" "answers (Suc 0) s"
    "find (\<lambda>q. pid q = toObjectId L (params_id r)) (posts s) = Some p" "authorId p \<noteq> uid u" "\<not> isAdmin u"
  shows "delete_get L r s =
     (Send 403 ''You are not authorized to delete this post'',
      s\<lparr>faults := drop (Suc 0) (faults s), trace := trace s @ [FindPostById (params_id r)]\<rparr>)"
  using assms by (simp add: delete_get_def Post_findById_answered)

lemma delete_get_not_found:
  assumes "req_user r = Some u" "isValid L (params_id r)" "answers (Suc 0) s"
    "find (\<lambda>q. pid q = toObjectId L (params_id r)) (posts s) = None"
  shows "delete_get L r s =
     (Send 404 ''Post not found'',
      s\<lparr>faults := drop (Suc 0) (faults s), trace := trace s @ [FindPostById (params_id r)]\<rparr>)"
  using assms by (simp add: delete_get_def Post_findById_answered)

lemma delete_get_malformed:
  assumes "req_user r = Some u" "\<not> isValid L (params_id r)"
  shows "delete_get L r s = (ise, s)"
  using assms by (simp add: delete_get_def Post_findById_def)

text \<open>
  C2. The claim: for a logged-in caller, a GET of \<^verbatim>\<open>/delete/:id\<close> for a post that does not
  exist is answered 404, a client error. The code: the delete route looks the post up
  (line 353) without the check of the id that the sibling route \<^verbatim>\<open>/posts/:id\<close> makes
  (lines 387-389). With an id that is no well-formed identifier, which no post has, the
  cast of the lookup raises and the \<^verbatim>\<open>catch\<close> answers 500, a server error, where the
  sibling answers the client error 400. Nothing is deleted. With a well-formed id the
  route does what the claim says: 403 for a caller who is neither the author nor
  flagged as admin, 404 when no post has the id, the store as it was
  (\<open>delete_get_forbidden\<close>, \<open>delete_get_not_found\<close>).
\<close>

theorem delete_get_malformed_id_server_error:
  "delete_get demo_lib (demo_req\<lparr>req_user := Some bob, params_id := ''42''\<rparr>) demo_state
     = (Send 500 ''Internal Server Error'', demo_state) \<and>
   post_view demo_lib (demo_req\<lparr>req_user := Some bob, params_id := ''42''\<rparr>) demo_state
     = (Send 400 ''Invalid post ID'', demo_state)"
  by (simp add: delete_get_def post_view_def Post_findById_def ise_def demo_lib_def demo_req_def)

text \<open>
  The author's request with the upper-case spelling of the id of the stored post deletes
  that post and its file.
\<close>

lemma delete_get_upper_case_id:
  "delete_get demo_lib (demo_req\<lparr>req_user := Some alice, params_id := ''0000000000000000000000C3''\<rparr>)
       demo_state
     = (Redirect ''/myposts'',
        demo_state\<lparr>posts := [], uploads := {},
          trace := [FindPostById ''0000000000000000000000C3'', Unlink ''old.png'',
                    DeletePost ''0000000000000000000000C3'']\<rparr>)"
  by (simp add: delete_get_def Post_findById_def Post_deleteOne_def fs_unlink_def store_call_def
      answers_def isAdmin_def getprop_def demo_lib_def hex_lower_def demo_req_def demo_state_def
      demo_post_def alice_def)

subsection \<open>The collection of users\<close>

text \<open>
  Signup is the one route that writes to the collection of users: every other route
  leaves it as it was. So the emails stay unique, and a store without a user flagged as
  admin stays one, whatever the browser requests.
\<close>

lemma users_upload_single [simp]: "users (upload_single r s) = users s"
  by (simp add: upload_single_def split: option.splits)

lemma users_storeOriginalUrl [simp]: "users (storeOriginalUrl r s) = users s"
  by (simp add: storeOriginalUrl_def)

lemma users_Post_findById [simp]: "users (snd (Post_findById L i s)) = users s"
  by (simp add: Post_findById_def store_call_def)

lemma users_Post_find_sorted [simp]: "users (snd (Post_find_sorted a s)) = users s"
  by (simp add: Post_find_sorted_def store_call_def)

lemma users_Post_find_author [simp]: "users (snd (Post_find_author a s)) = users s"
  by (simp add: Post_find_author_def store_call_def)

lemma users_Post_save [simp]: "users (snd (Post_save p s)) = users s"
  by (simp add: Post_save_def store_call_def)

lemma users_Post_deleteOne [simp]: "users (snd (Post_deleteOne L i s)) = users s"
  by (simp add: Post_deleteOne_def store_call_def)

lemma users_fs_unlink [simp]: "users (snd (fs_unlink f s)) = users s"
  by (simp add: fs_unlink_def)

lemma users_User_findOne [simp]: "users (snd (User_findOne e s)) = users s"
  by (simp add: User_findOne_def store_call_def)

lemma users_User_findById [simp]: "users (snd (User_findById e s)) = users s"
  by (simp add: User_findById_def store_call_def)

lemma users_Post_findById_D: "Post_findById L i s = (x, s') \<Longrightarrow> users s' = users s"
  using users_Post_findById [of L i s] by simp

lemma users_Post_save_D: "Post_save p s = (x, s') \<Longrightarrow> users s' = users s"
  using users_Post_save [of p s] by simp

lemma users_Post_deleteOne_D: "Post_deleteOne L p s = (x, s') \<Longrightarrow> users s' = users s"
  using users_Post_deleteOne [of L p s] by simp

lemma users_fs_unlink_D: "fs_unlink p s = (x, s') \<Longrightarrow> users s' = users s"
  using users_fs_unlink [of p s] by simp

lemma users_Post_find_sorted_D: "Post_find_sorted p s = (x, s') \<Longrightarrow> users s' = users s"
  using users_Post_find_sorted [of p s] by simp

lemma users_Post_find_author_D: "Post_find_author p s = (x, s') \<Longrightarrow> users s' = users s"
  using users_Post_find_author [of p s] by simp

lemmas users_D = users_Post_findById_D users_Post_save_D users_Post_deleteOne_D users_fs_unlink_D
  users_Post_find_sorted_D users_Post_find_author_D

lemma users_home: "users (snd (home r s)) = users s"
  by (auto simp: home_def Let_def split: prod.split sum.split dest!: users_D)

lemma users_edit_post: "users (snd (edit_post L r s)) = users s"
  by (auto simp: edit_post_def Let_def split: prod.split sum.split option.split bool.split dest!: users_D)

lemma users_edit_get: "users (snd (edit_get L r s)) = users s"
  by (auto simp: edit_get_def Let_def split: prod.split sum.split option.split bool.split dest!: users_D)

lemma users_delete_get: "users (snd (delete_get L r s)) = users s"
  by (auto simp: delete_get_def Let_def split: prod.split sum.split option.split bool.split dest!: users_D)

lemma users_post_view: "users (snd (post_view L r s)) = users s"
  by (auto simp: post_view_def Let_def split: prod.split sum.split option.split bool.split dest!: users_D)

lemma users_posts_user: "users (snd (posts_user r s)) = users s"
  by (auto simp: posts_user_def Let_def split: prod.split sum.split option.split bool.split dest!: users_D)

lemma users_myposts: "users (snd (myposts r s)) = users s"
  by (auto simp: myposts_def Let_def split: prod.split sum.split option.split bool.split dest!: users_D)

lemma users_post_create: "users (snd (post_create r s)) = users s"
  by (auto simp: post_create_def post_failed_def Let_def split: prod.split sum.split option.split bool.split jsval.split dest!: users_D)

lemma users_login_post: "users (snd (login_post L r s)) = users s"
  by (auto simp: login_post_def authenticate_def User_findOne_def store_call_def Let_def
      split: prod.split sum.split option.split bool.split jsval.split auth.split)

lemma users_simple:
  "users (snd (signup_get r s)) = users s" "users (snd (login_get r s)) = users s"
  "users (snd (logout r s)) = users s" "users (snd (dashboard r s)) = users s"
  by (simp_all add: signup_get_def login_get_def logout_def dashboard_def split: option.split)

lemma users_deserializeUser: "users (snd (deserializeUser s)) = users s"
  by (auto simp: deserializeUser_def User_findById_def store_call_def
      split: option.split prod.split sum.split)

lemma dispatch_users:
  "users (snd (dispatch L rt r s)) = users s \<or>
   (find (\<lambda>u. getprop u ''email'' = JStr (body_email r)) (users s) = None \<and>
    users (snd (dispatch L rt r s)) = users s @
      [new_User (new_id r)
         [(''email'', JStr (body_email r)),
          (''password'', JStr (bcrypt_hash L (body_password r))),
          (''admin'', JBool False)]])"
proof (cases rt)
  case PostSignup
  then show ?thesis using signup_post_users [of L r s] by simp
qed (simp_all add: users_home users_edit_post users_edit_get users_delete_get users_post_view
    users_posts_user users_myposts users_post_create users_login_post users_simple)

lemma serve_users:
  "users (snd (serve L rt r s)) = users s \<or>
   (find (\<lambda>u. getprop u ''email'' = JStr (body_email r)) (users s) = None \<and>
    users (snd (serve L rt r s)) = users s @
      [new_User (new_id r)
         [(''email'', JStr (body_email r)),
          (''password'', JStr (bcrypt_hash L (body_password r))),
          (''admin'', JBool False)]])"
proof (cases "deserializeUser s")
  case (Pair x s1)
  with users_deserializeUser [of s] have u: "users s1 = users s" by simp
  show ?thesis
  proof (cases x)
    case (Inl e)
    with Pair u show ?thesis by (simp add: serve_def)
  next
    case (Inr v)
    with Pair u
      dispatch_users [of L rt "r\<lparr>req_user := v, cookies_redUrl := jar_redUrl s1\<rparr>" "s1\<lparr>flash_error := []\<rparr>"]
    show ?thesis by (simp add: serve_def)
  qed
qed

lemma getprop_new_User_email:
  "getprop (new_User i [(''email'', a), (''password'', b), (''admin'', c)]) ''email'' = a"
  by (simp add: getprop_def new_User_def userSchema_def)

lemma serve_emails_unique:
  assumes "emails_unique s"
  shows "emails_unique (snd (serve L rt r s))"
proof -
  let ?n = "new_User (new_id r)
         [(''email'', JStr (body_email r)),
          (''password'', JStr (bcrypt_hash L (body_password r))),
          (''admin'', JBool False)]"
  from serve_users [of L rt r s] show ?thesis
  proof
    assume "users (snd (serve L rt r s)) = users s"
    with assms show ?thesis by (simp add: emails_unique_def)
  next
    assume a: "find (\<lambda>u. getprop u ''email'' = JStr (body_email r)) (users s) = None \<and>
      users (snd (serve L rt r s)) = users s @ [?n]"
    then have "\<forall>u\<in>set (users s). getprop u ''email'' \<noteq> JStr (body_email r)"
      by (simp add: find_none_iff)
    then have "JStr (body_email r) \<notin> (\<lambda>u. getprop u ''email'') ` set (users s)"
      by (auto simp: image_iff)
    with a assms show ?thesis
      by (simp add: emails_unique_def getprop_new_User_email)
  qed
qed

lemma serve_no_admin:
  assumes "list_all (\<lambda>u. \<not> isAdmin u) (users s)"
  shows "list_all (\<lambda>u. \<not> isAdmin u) (users (snd (serve L rt r s)))"
  using serve_users [of L rt r s] assms
  by (auto simp: isAdmin_new_User)

lemma run_invariants:
  "emails_unique s \<Longrightarrow> emails_unique (run L rs s)"
  "list_all (\<lambda>u. \<not> isAdmin u) (users s) \<Longrightarrow> list_all (\<lambda>u. \<not> isAdmin u) (users (run L rs s))"
  by (induction rs arbitrary: s) (auto simp: serve_emails_unique serve_no_admin)

text \<open>
  C10. A user that the signup handler adds to the store carries the two properties of
  the schema and nothing else: the \<^verbatim>\<open>admin: false\<close> of line 234 is not a path of the
  schema and is dropped, and \<^verbatim>\<open>isAdmin\<close>, which line 360 reads, is undefined. For such
  a user the admin branch of the delete handler is never taken: a post of another author
  is refused with 403 and stays in the store, with its file.
\<close>

theorem signup_user_never_admin:
  assumes "u \<in> set (users (snd (signup_post L r s)))" "u \<notin> set (users s)"
  shows "props u = [(''email'', JStr (body_email r)), (''password'', JStr (bcrypt_hash L (body_password r)))] \<and>
    getprop u ''admin'' = JUndefined \<and> \<not> isAdmin u \<and>
    (\<forall>L' r' t p. req_user r' = Some u \<and> isValid L' (params_id r') \<and> answers 1 t \<and>
        find (\<lambda>q. pid q = toObjectId L' (params_id r')) (posts t) = Some p \<and> authorId p \<noteq> uid u \<longrightarrow>
      fst (delete_get L' r' t) = Send 403 ''You are not authorized to delete this post'' \<and>
      posts (snd (delete_get L' r' t)) = posts t \<and> uploads (snd (delete_get L' r' t)) = uploads t)"
proof -
  let ?n = "new_User (new_id r)
         [(''email'', JStr (body_email r)),
          (''password'', JStr (bcrypt_hash L (body_password r))),
          (''admin'', JBool False)]"
  from assms signup_post_users [of L r s] have u: "u = ?n"
    by auto
  have p: "props ?n = [(''email'', JStr (body_email r)), (''password'', JStr (bcrypt_hash L (body_password r)))]"
    by (simp add: new_User_def userSchema_def)
  have a: "getprop ?n ''admin'' = JUndefined"
    by (simp add: getprop_def p)
  have n: "\<not> isAdmin ?n"
    by (rule isAdmin_new_User)
  have "fst (delete_get L' r' t) = Send 403 ''You are not authorized to delete this post'' \<and>
      posts (snd (delete_get L' r' t)) = posts t \<and> uploads (snd (delete_get L' r' t)) = uploads t"
    if "req_user r' = Some u" "isValid L' (params_id r')" "answers 1 t"
      "find (\<lambda>q. pid q = toObjectId L' (params_id r')) (posts t) = Some p" "authorId p \<noteq> uid u"
    for L' r' t p
    using delete_get_forbidden [of r' u L' t p] that n u by simp
  with u p a n show ?thesis by blast
qed

theorem signup_user_never_admin_witness:
  "users (snd (signup_post demo_lib (demo_req\<lparr>body_email := ''carol@example.org''\<rparr>) demo_state))
     = [alice, bob,
        \<lparr>uid = ''0000000000000000000000d4'',
         props = [(''email'', JStr ''carol@example.org''), (''password'', JStr ''$2b$wonderland'')]\<rparr>] \<and>
   \<not> isAdmin \<lparr>uid = ''0000000000000000000000d4'',
         props = [(''email'', JStr ''carol@example.org''), (''password'', JStr ''$2b$wonderland'')]\<rparr> \<and>
   fst (delete_get demo_lib
          (demo_req\<lparr>req_user := Some \<lparr>uid = ''0000000000000000000000d4'',
             props = [(''email'', JStr ''carol@example.org''), (''password'', JStr ''$2b$wonderland'')]\<rparr>\<rparr>)
          demo_state)
     = Send 403 ''You are not authorized to delete this post''"
proof -
  let ?c = "\<lparr>uid = ''0000000000000000000000d4'',
         props = [(''email'', JStr ''carol@example.org''), (''password'', JStr ''$2b$wonderland'')]\<rparr>"
  let ?r = "demo_req\<lparr>body_email := ''carol@example.org''\<rparr>"
  let ?r' = "demo_req\<lparr>req_user := Some ?c\<rparr>"
  have s: "users (snd (signup_post demo_lib ?r demo_state)) = [alice, bob, ?c]"
    by (simp add: signup_post_def User_findOne_def User_save_def store_call_def answers_def
        validateEmail_def isAuthenticated_def new_User_def userSchema_def
        demo_lib_def hex_lower_def demo_req_def demo_state_def alice_def bob_def getprop_def)
  have i: "?c \<in> set (users (snd (signup_post demo_lib ?r demo_state)))"
    by (simp only: s) simp
  have o: "?c \<notin> set (users demo_state)"
    by (simp add: demo_state_def alice_def bob_def)
  note T = signup_user_never_admin [OF i o]
  have h: "req_user ?r' = Some ?c" "isValid demo_lib (params_id ?r')" "answers 1 demo_state"
    "find (\<lambda>q. pid q = toObjectId demo_lib (params_id ?r')) (posts demo_state) = Some demo_post"
    "authorId demo_post \<noteq> uid ?c"
    by (simp_all add: demo_lib_def hex_lower_def demo_req_def demo_state_def demo_post_def answers_def)
  from T have 1: "\<not> isAdmin ?c" by blast
  from T h have 2: "fst (delete_get demo_lib ?r' demo_state) = Send 403 ''You are not authorized to delete this post''"
    by blast
  from s 1 2 show ?thesis by simp
qed

subsection \<open>An edit by the author\<close>

lemma find_pid_Some: "find (\<lambda>q. pid q = i) ps = Some p \<Longrightarrow> pid p = i \<and> p \<in> set ps"
  by (induction ps) (auto split: if_splits)

lemma find_map_replace:
  "find (\<lambda>q. pid q = i) ps = Some p \<Longrightarrow> pid p' = i \<Longrightarrow>
     find (\<lambda>q. pid q = i) (map (\<lambda>q. if pid q = i then p' else q) ps) = Some p'"
  by (induction ps) (auto split: if_splits)

lemma Post_save_answered:
  "answers (Suc 0) s \<Longrightarrow>
     Post_save p s =
       (True, s\<lparr>faults := drop (Suc 0) (faults s), trace := trace s @ [SavePost (pid p)],
                 posts := (if pid p \<in> pid ` set (posts s)
                           then map (\<lambda>q. if pid q = pid p then p else q) (posts s)
                           else posts s @ [p])\<rparr>)"
  by (simp add: Post_save_def store_call_answered)

lemma Post_save_rejected:
  "\<not> answers (Suc 0) s \<Longrightarrow>
     Post_save p s =
       (False, s\<lparr>faults := drop (Suc 0) (faults s), trace := trace s @ [SavePost (pid p)]\<rparr>)"
  by (simp add: Post_save_def store_call_rejected)

lemma answers_upload_single [simp]: "answers n (upload_single r s) = answers n s"
  by (simp add: upload_single_def answers_def split: option.splits)

lemma posts_upload_single [simp]: "posts (upload_single r s) = posts s"
  by (simp add: upload_single_def split: option.splits)

lemma answers_2: "answers 2 s \<Longrightarrow> answers (Suc 0) s \<and> answers (Suc 0) (s\<lparr>faults := drop (Suc 0) (faults s), trace := tr\<rparr>)"
  using answers_first [of 1 s] answers_rest [of 1 s tr] by (simp add: numeral_2_eq_2)

lemma edit_post_success:
  assumes "req_user r = Some u" "isValid L (params_id r)" "answers 2 s"
    "find (\<lambda>q. pid q = toObjectId L (params_id r)) (posts s) = Some p" "authorId p = uid u"
  shows "edit_post L r s =
    (Redirect (''/post/edit/'' @ params_id r),
     (case req_file r of
        None \<Rightarrow>
          s\<lparr>faults := drop 2 (faults s),
            trace := trace s @ [FindPostById (params_id r), SavePost (toObjectId L (params_id r))],
            posts := map (\<lambda>q. if pid q = toObjectId L (params_id r)
                              then p\<lparr>title := body_title r, body := body_body r\<rparr> else q) (posts s)\<rparr>
      | Some f \<Rightarrow>
          s\<lparr>faults := drop 2 (faults s),
            trace := trace s @ [Upload f, FindPostById (params_id r), SavePost (toObjectId L (params_id r))]
                       @ (if filename p \<noteq> [] then [Unlink (filename p)] else []),
            uploads := (if filename p \<noteq> [] then insert f (uploads s) - {filename p}
                        else insert f (uploads s)),
            posts := map (\<lambda>q. if pid q = toObjectId L (params_id r)
                              then p\<lparr>title := body_title r, body := body_body r, filename := f\<rparr>
                              else q) (posts s)\<rparr>))"
proof -
  from assms(4) have pp: "pid p = toObjectId L (params_id r)" "p \<in> set (posts s)"
    using find_pid_Some by fastforce+
  then have im: "toObjectId L (params_id r) \<in> pid ` set (posts s)" by force
  show ?thesis
  proof (cases "req_file r")
    case None
    with assms pp im answers_2 [OF assms(3)] show ?thesis
      by (simp add: edit_post_def upload_single_def Post_findById_answered Post_save_answered numeral_2_eq_2)
  next
    case (Some f)
    with assms pp im answers_2 [OF assms(3)] show ?thesis
      by (simp add: edit_post_def upload_single_def Post_findById_answered Post_save_answered
          fs_unlink_def Let_def answers_def numeral_2_eq_2)
  qed
qed

lemma answers_not_2:
  "answers (Suc 0) s \<Longrightarrow> \<not> answers 2 s \<Longrightarrow>
     \<not> answers (Suc 0) (s\<lparr>faults := drop (Suc 0) (faults s), trace := tr\<rparr>)"
proof (cases "faults s")
  case Nil
  assume "\<not> answers 2 s"
  with Nil show ?thesis by (simp add: answers_def)
next
  case (Cons a fs)
  assume "answers (Suc 0) s" "\<not> answers 2 s"
  with Cons show ?thesis by (cases fs) (auto simp: answers_def)
qed

lemma edit_post_save_rejected:
  assumes "req_user r = Some u" "isValid L (params_id r)" "answers (Suc 0) s" "\<not> answers 2 s"
    "find (\<lambda>q. pid q = toObjectId L (params_id r)) (posts s) = Some p" "authorId p = uid u"
  shows "edit_post L r s =
    (Send 500 ''Internal Server Error'',
     (upload_single r s)\<lparr>faults := drop 2 (faults s),
        trace := trace (upload_single r s) @ [FindPostById (params_id r), SavePost (toObjectId L (params_id r))]\<rparr>)"
proof -
  from assms(5) have pp: "pid p = toObjectId L (params_id r)"
    using find_pid_Some by fastforce
  have f: "faults (upload_single r s) = faults s"
    by (simp add: upload_single_def split: option.splits)
  have a: "answers (Suc 0) (upload_single r s)"
    using assms(3) by simp
  have n: "\<not> answers (Suc 0)
     ((upload_single r s)\<lparr>faults := drop (Suc 0) (faults (upload_single r s)),
        trace := trace (upload_single r s) @ [FindPostById (params_id r)]\<rparr>)"
    using answers_not_2 [of "upload_single r s"] assms(3,4) f by (simp add: answers_def)
  show ?thesis
    using assms(1,2,5,6) pp a n f
    by (cases "req_file r")
      (simp_all add: edit_post_def Post_findById_answered Post_save_rejected ise_def Let_def
        numeral_2_eq_2)
qed

text \<open>
  C5. An edit submitted by the author of the post, the store answering the lookup. When
  the store also answers the save, the browser is sent back to the edit page and the
  post has the title and body of the form; its date, display name, author and id are
  those it had. Without a new file its filename is unchanged and so is the upload
  directory. With a new file its filename is the name of the new file, and the old file
  is removed, if the post had one, by an unlink that follows the save in the trace. When
  the store rejects the save, the answer is 500, the posts are as they were and no file
  is removed.
\<close>

theorem edit_post_by_author:
  assumes "req_user r = Some u" "isValid L (params_id r)" "answers 1 s"
    "find (\<lambda>q. pid q = toObjectId L (params_id r)) (posts s) = Some p" "authorId p = uid u"
  shows
   "(answers 2 s \<longrightarrow>
      (\<exists>s' p'. edit_post L r s = (Redirect (''/post/edit/'' @ params_id r), s') \<and>
         find (\<lambda>q. pid q = toObjectId L (params_id r)) (posts s') = Some p' \<and>
         title p' = body_title r \<and> body p' = body_body r \<and>
         createdAt p' = createdAt p \<and> username p' = username p \<and> authorId p' = authorId p \<and>
         pid p' = pid p \<and>
         (req_file r = None \<longrightarrow>
            filename p' = filename p \<and> uploads s' = uploads s \<and>
            trace s' = trace s @ [FindPostById (params_id r), SavePost (toObjectId L (params_id r))]) \<and>
         (\<forall>f. req_file r = Some f \<longrightarrow>
            filename p' = f \<and>
            (filename p \<noteq> [] \<longrightarrow>
               uploads s' = insert f (uploads s) - {filename p} \<and>
               trace s' = trace s @ [Upload f, FindPostById (params_id r), SavePost (toObjectId L (params_id r)),
                                     Unlink (filename p)]) \<and>
            (filename p = [] \<longrightarrow>
               uploads s' = insert f (uploads s) \<and>
               trace s' = trace s @ [Upload f, FindPostById (params_id r), SavePost (toObjectId L (params_id r))])))) \<and>
    (\<not> answers 2 s \<longrightarrow>
       fst (edit_post L r s) = Send 500 ''Internal Server Error'' \<and>
       posts (snd (edit_post L r s)) = posts s \<and>
       uploads (snd (edit_post L r s)) = uploads (upload_single r s) \<and>
       trace (snd (edit_post L r s)) =
         trace (upload_single r s) @ [FindPostById (params_id r), SavePost (toObjectId L (params_id r))])"
proof (intro conjI impI)
  assume a2: "answers 2 s"
  note E = edit_post_success [OF assms(1,2) a2 assms(4,5)]
  from assms(4) have pp: "pid p = toObjectId L (params_id r)" "p \<in> set (posts s)"
    using find_pid_Some by fastforce+
  show "\<exists>s' p'. edit_post L r s = (Redirect (''/post/edit/'' @ params_id r), s') \<and>
         find (\<lambda>q. pid q = toObjectId L (params_id r)) (posts s') = Some p' \<and>
         title p' = body_title r \<and> body p' = body_body r \<and>
         createdAt p' = createdAt p \<and> username p' = username p \<and> authorId p' = authorId p \<and>
         pid p' = pid p \<and>
         (req_file r = None \<longrightarrow>
            filename p' = filename p \<and> uploads s' = uploads s \<and>
            trace s' = trace s @ [FindPostById (params_id r), SavePost (toObjectId L (params_id r))]) \<and>
         (\<forall>f. req_file r = Some f \<longrightarrow>
            filename p' = f \<and>
            (filename p \<noteq> [] \<longrightarrow>
               uploads s' = insert f (uploads s) - {filename p} \<and>
               trace s' = trace s @ [Upload f, FindPostById (params_id r), SavePost (toObjectId L (params_id r)),
                                     Unlink (filename p)]) \<and>
            (filename p = [] \<longrightarrow>
               uploads s' = insert f (uploads s) \<and>
               trace s' = trace s @ [Upload f, FindPostById (params_id r), SavePost (toObjectId L (params_id r))]))"
  proof (cases "req_file r")
    case None
    let ?p' = "p\<lparr>title := body_title r, body := body_body r\<rparr>"
    have "find (\<lambda>q. pid q = toObjectId L (params_id r))
        (map (\<lambda>q. if pid q = toObjectId L (params_id r) then ?p' else q) (posts s)) = Some ?p'"
      using assms(4) pp by (intro find_map_replace) simp_all
    with E None show ?thesis by simp
  next
    case (Some f)
    let ?p' = "p\<lparr>title := body_title r, body := body_body r, filename := f\<rparr>"
    have "find (\<lambda>q. pid q = toObjectId L (params_id r))
        (map (\<lambda>q. if pid q = toObjectId L (params_id r) then ?p' else q) (posts s)) = Some ?p'"
      using assms(4) pp by (intro find_map_replace) simp_all
    with E Some show ?thesis by simp
  qed
next
  assume n2: "\<not> answers 2 s"
  from assms(3) have a1: "answers (Suc 0) s" by simp
  note R = edit_post_save_rejected [OF assms(1,2) a1 n2 assms(4,5)]
  show "fst (edit_post L r s) = Send 500 ''Internal Server Error''"
    "posts (snd (edit_post L r s)) = posts s"
    "uploads (snd (edit_post L r s)) = uploads (upload_single r s)"
    "trace (snd (edit_post L r s)) =
         trace (upload_single r s) @ [FindPostById (params_id r), SavePost (toObjectId L (params_id r))]"
    by (simp_all add: R)
qed

theorem edit_post_by_author_witness:
  "(\<exists>p'. find (\<lambda>q. pid q = ''0000000000000000000000c3'')
            (posts (snd (edit_post demo_lib (demo_req\<lparr>req_user := Some alice\<rparr>) demo_state))) = Some p' \<and>
         title p' = ''Hello again'' \<and> createdAt p' = 1000 \<and> username p' = ''alice'' \<and>
         filename p' = ''old.png'') \<and>
   uploads (snd (edit_post demo_lib (demo_req\<lparr>req_user := Some alice\<rparr>) demo_state)) = {''old.png''} \<and>
   (\<exists>p'. find (\<lambda>q. pid q = ''0000000000000000000000c3'')
            (posts (snd (edit_post demo_lib
               (demo_req\<lparr>req_user := Some alice, req_file := Some ''new.png''\<rparr>) demo_state))) = Some p' \<and>
         createdAt p' = 1000 \<and> username p' = ''alice'' \<and> filename p' = ''new.png'') \<and>
   uploads (snd (edit_post demo_lib
      (demo_req\<lparr>req_user := Some alice, req_file := Some ''new.png''\<rparr>) demo_state)) = {''new.png''} \<and>
   trace (snd (edit_post demo_lib
      (demo_req\<lparr>req_user := Some alice, req_file := Some ''new.png''\<rparr>) demo_state))
     = [Upload ''new.png'', FindPostById ''0000000000000000000000c3'',
        SavePost ''0000000000000000000000c3'', Unlink ''old.png''] \<and>
   fst (edit_post demo_lib (demo_req\<lparr>req_user := Some alice, req_file := Some ''new.png''\<rparr>)
          (demo_state\<lparr>faults := [False, True]\<rparr>)) = Send 500 ''Internal Server Error'' \<and>
   uploads (snd (edit_post demo_lib (demo_req\<lparr>req_user := Some alice, req_file := Some ''new.png''\<rparr>)
          (demo_state\<lparr>faults := [False, True]\<rparr>))) = {''new.png'', ''old.png''}"
proof -
  let ?rA = "demo_req\<lparr>req_user := Some alice\<rparr>"
  let ?rB = "demo_req\<lparr>req_user := Some alice, req_file := Some ''new.png''\<rparr>"
  let ?t = "demo_state\<lparr>faults := [False, True]\<rparr>"
  have u: "req_user ?rA = Some alice" "req_user ?rB = Some alice" by simp_all
  have v: "isValid demo_lib (params_id ?rA)" "isValid demo_lib (params_id ?rB)"
    by (simp_all add: demo_lib_def hex_lower_def demo_req_def)
  have a: "answers 1 demo_state" "answers 2 demo_state" "answers 1 ?t" "\<not> answers 2 ?t"
    by (simp_all add: answers_def demo_state_def)
  have f: "find (\<lambda>q. pid q = toObjectId demo_lib (params_id ?rA)) (posts demo_state) = Some demo_post"
    "find (\<lambda>q. pid q = toObjectId demo_lib (params_id ?rB)) (posts demo_state) = Some demo_post"
    "find (\<lambda>q. pid q = toObjectId demo_lib (params_id ?rB)) (posts ?t) = Some demo_post"
    by (simp_all add: demo_state_def demo_req_def demo_post_def demo_lib_def hex_lower_def)
  have au: "authorId demo_post = uid alice"
    by (simp add: demo_post_def alice_def)
  have d: "params_id ?rA = ''0000000000000000000000c3''" "params_id ?rB = ''0000000000000000000000c3''"
    "req_file ?rA = None" "req_file ?rB = Some ''new.png''" "body_title ?rA = ''Hello again''"
    "createdAt demo_post = 1000" "username demo_post = ''alice''" "filename demo_post = ''old.png''"
    "uploads demo_state = {''old.png''}" "trace demo_state = []" "uploads ?t = {''old.png''}"
    "toObjectId demo_lib ''0000000000000000000000c3'' = ''0000000000000000000000c3''"
    by (simp_all add: demo_req_def demo_post_def demo_state_def demo_lib_def hex_lower_def)
  have A: "(\<exists>p'. find (\<lambda>q. pid q = ''0000000000000000000000c3'')
            (posts (snd (edit_post demo_lib ?rA demo_state))) = Some p' \<and>
         title p' = ''Hello again'' \<and> createdAt p' = 1000 \<and> username p' = ''alice'' \<and>
         filename p' = ''old.png'') \<and>
     uploads (snd (edit_post demo_lib ?rA demo_state)) = {''old.png''}"
    using edit_post_by_author [OF u(1) v(1) a(1) f(1) au, THEN conjunct1, rule_format, OF a(2)]
    by (simp only: d) force
  have B: "(\<exists>p'. find (\<lambda>q. pid q = ''0000000000000000000000c3'')
            (posts (snd (edit_post demo_lib ?rB demo_state))) = Some p' \<and>
         createdAt p' = 1000 \<and> username p' = ''alice'' \<and> filename p' = ''new.png'') \<and>
     uploads (snd (edit_post demo_lib ?rB demo_state)) = {''new.png''} \<and>
     trace (snd (edit_post demo_lib ?rB demo_state))
       = [Upload ''new.png'', FindPostById ''0000000000000000000000c3'',
          SavePost ''0000000000000000000000c3'', Unlink ''old.png'']"
    using edit_post_by_author [OF u(2) v(2) a(1) f(2) au, THEN conjunct1, rule_format, OF a(2)]
    by (simp only: d) force
  have C: "fst (edit_post demo_lib ?rB ?t) = Send 500 ''Internal Server Error'' \<and>
     uploads (snd (edit_post demo_lib ?rB ?t)) = {''new.png'', ''old.png''}"
    using edit_post_by_author [OF u(2) v(2) a(3) f(3) au, THEN conjunct2, rule_format, OF a(4)]
    by (simp add: upload_single_def d)
  from A B C show ?thesis by blast
qed

subsection \<open>Back to the requested page after login\<close>

lemma serve_myposts_unauthenticated:
  assumes "sess_user s = None"
  shows "serve L GetMyposts r s = (Redirect ''/login'', s\<lparr>flash_error := [], jar_redUrl := Some (req_url r)\<rparr>)"
  using assms
  by (simp add: serve_def deserializeUser_def myposts_def storeOriginalUrl_def isAuthenticated_def)

lemma serve_login_get_unauthenticated:
  assumes "sess_user s = None"
  shows "serve L GetLogin r s = (Render ''login'' [], s\<lparr>flash_error := []\<rparr>)"
  using assms
  by (simp add: serve_def deserializeUser_def login_get_def isAuthenticated_def)

lemma serve_login_post_success:
  assumes "sess_user s = None" "answers (Suc 0) s" "emails_unique s" "u \<in> set (users s)"
    "getprop u ''email'' = JStr (body_email r)" "getprop u ''password'' = JStr h"
    "bcrypt_compare L (body_password r) h" "body_email r \<noteq> []" "body_password r \<noteq> []"
  shows "serve L PostLogin r s =
    (case jar_redUrl s of
       None \<Rightarrow> Redirect ''/dashboard''
     | Some x \<Rightarrow> if x \<noteq> [] then Redirect x else Redirect ''/dashboard'',
     s\<lparr>faults := drop (Suc 0) (faults s), trace := trace s @ [FindUserByEmail (body_email r)],
       flash_error := [], sess_user := Some (uid u)\<rparr>)"
proof -
  let ?s = "s\<lparr>flash_error := []\<rparr>"
  have "authenticate L (body_email r) (body_password r) ?s =
     (AuthOk u, ?s\<lparr>faults := drop (Suc 0) (faults ?s), trace := trace ?s @ [FindUserByEmail (body_email r)]\<rparr>)"
    using authenticate_known [of ?s u "body_email r" h L "body_password r"] assms
    by (simp add: emails_unique_def answers_def)
  with assms(1,8,9) show ?thesis
    by (simp add: serve_def deserializeUser_def login_post_def redirectBack_def)
qed

lemma login_post_failed:
  assumes "body_email r \<noteq> []" "body_password r \<noteq> []"
    "authenticate L (body_email r) (body_password r) s = (AuthFail m, s')"
  shows "login_post L r s = (Redirect ''/login'', s'\<lparr>flash_error := flash_error s' @ [m]\<rparr>)"
  using assms by (simp add: login_post_def)

text \<open>
  C8. A browser without a session that requests \<^verbatim>\<open>/myposts\<close> is redirected to
  \<^verbatim>\<open>/login\<close>, and its \<^verbatim>\<open>redUrl\<close> cookie holds \<^verbatim>\<open>/myposts\<close>. When it then opens
  the login page and logs in with the email and the password of a stored user, it is
  redirected to \<^verbatim>\<open>/myposts\<close> and its session holds that user. A login from a browser
  without the cookie is redirected to \<^verbatim>\<open>/dashboard\<close>.
\<close>

theorem login_returns_to_requested_page:
  assumes "sess_user s = None" "req_url r = ''/myposts''"
    and "answers 1 s" "emails_unique s" "u \<in> set (users s)"
    and "getprop u ''email'' = JStr (body_email r')" "getprop u ''password'' = JStr h"
    and "bcrypt_compare L (body_password r') h" "body_email r' \<noteq> []" "body_password r' \<noteq> []"
  shows "serve L GetMyposts r s = (Redirect ''/login'', s\<lparr>flash_error := [], jar_redUrl := Some ''/myposts''\<rparr>) \<and>
    fst (serve L PostLogin r' (snd (serve L GetLogin r'' (snd (serve L GetMyposts r s))))) = Redirect ''/myposts'' \<and>
    sess_user (snd (serve L PostLogin r' (snd (serve L GetLogin r'' (snd (serve L GetMyposts r s)))))) = Some (uid u) \<and>
    (jar_redUrl s = None \<longrightarrow> fst (serve L PostLogin r' s) = Redirect ''/dashboard'')"
proof -
  let ?s1 = "s\<lparr>flash_error := [], jar_redUrl := Some ''/myposts''\<rparr>"
  have 1: "serve L GetMyposts r s = (Redirect ''/login'', ?s1)"
    using serve_myposts_unauthenticated [OF assms(1), of L r] assms(2) by simp
  have 2: "serve L GetLogin r'' ?s1 = (Render ''login'' [], ?s1)"
    using serve_login_get_unauthenticated [of ?s1 L r''] assms(1) by simp
  have 3: "serve L PostLogin r' ?s1 =
     (Redirect ''/myposts'',
      ?s1\<lparr>faults := drop (Suc 0) (faults ?s1), trace := trace ?s1 @ [FindUserByEmail (body_email r')],
        flash_error := [], sess_user := Some (uid u)\<rparr>)"
    using serve_login_post_success [of ?s1 u r' h L] assms
    by (simp add: emails_unique_def answers_def)
  have 4: "jar_redUrl s = None \<longrightarrow> fst (serve L PostLogin r' s) = Redirect ''/dashboard''"
    using serve_login_post_success [of s u r' h L] assms by simp
  from 1 2 3 4 show ?thesis by simp
qed

theorem login_returns_to_requested_page_witness:
  "serve demo_lib GetMyposts (demo_req\<lparr>req_url := ''/myposts''\<rparr>) demo_state
     = (Redirect ''/login'', demo_state\<lparr>jar_redUrl := Some ''/myposts''\<rparr>) \<and>
   fst (serve demo_lib PostLogin demo_req
         (snd (serve demo_lib GetLogin demo_req
            (snd (serve demo_lib GetMyposts (demo_req\<lparr>req_url := ''/myposts''\<rparr>) demo_state)))))
     = Redirect ''/myposts'' \<and>
   fst (serve demo_lib PostLogin demo_req demo_state) = Redirect ''/dashboard''"
proof -
  have h: "sess_user demo_state = None" "req_url (demo_req\<lparr>req_url := ''/myposts''\<rparr>) = ''/myposts''"
    "answers 1 demo_state" "alice \<in> set (users demo_state)"
    "getprop alice ''email'' = JStr (body_email demo_req)"
    "getprop alice ''password'' = JStr ''$2b$wonderland''"
    "bcrypt_compare demo_lib (body_password demo_req) ''$2b$wonderland''"
    "body_email demo_req \<noteq> []" "body_password demo_req \<noteq> []"
    by (simp_all add: demo_state_def demo_req_def demo_lib_def hex_lower_def alice_def getprop_def answers_def)
  have e: "emails_unique demo_state"
    by (simp add: emails_unique_def demo_state_def alice_def bob_def getprop_def)
  have j: "jar_redUrl demo_state = None" "flash_error demo_state = []"
    by (simp_all add: demo_state_def)
  have k: "demo_state\<lparr>flash_error := [], jar_redUrl := Some ''/myposts''\<rparr> = demo_state\<lparr>jar_redUrl := Some ''/myposts''\<rparr>"
    by (simp add: demo_state_def)
  note T = login_returns_to_requested_page [OF h(1,2,3) e h(4-9), of demo_req]
  from T have 1: "serve demo_lib GetMyposts (demo_req\<lparr>req_url := ''/myposts''\<rparr>) demo_state
     = (Redirect ''/login'', demo_state\<lparr>jar_redUrl := Some ''/myposts''\<rparr>)"
    by (simp only: k)
  from T have 2: "fst (serve demo_lib PostLogin demo_req
         (snd (serve demo_lib GetLogin demo_req
            (snd (serve demo_lib GetMyposts (demo_req\<lparr>req_url := ''/myposts''\<rparr>) demo_state)))))
     = Redirect ''/myposts''"
    by blast
  from T j have 3: "fst (serve demo_lib PostLogin demo_req demo_state) = Redirect ''/dashboard''"
    by blast
  from 1 2 3 show ?thesis by blast
qed

end
